theory Spec2Isabelle
  imports Complex_Main "HOL-Library.Sublist" "HOL-Library.AList"
begin

section \<open>JavaScript values\<close>

text \<open>
  The application is TypeScript; its keyword records reach it through \<open>JSON.parse\<close> and an
  unchecked cast, so at run time they are plain JavaScript values. The model keeps them as
  such. A number is \<open>NaN\<close>, an infinity, or a finite double named by its exact value
  (rounding belongs to the platform functions that produce numbers; the sign of zero is not
  kept, no modelled operation observes it). A string is the list of its code units. An
  object is the list of its own properties in their order, each name once.
\<close>

datatype js_number = NaN | NegInfinity | Num rat | PosInfinity

datatype js_value =
    JUndefined
  | JNull
  | JBool bool
  | JNum js_number
  | JStr string
  | JArr "js_value list"
  | JObj "(string \<times> js_value) list"

text \<open>
  What a \<open>throw\<close> carries. \<open>ErrorObject m\<close> is an instance of \<open>Error\<close> with message
  \<open>m\<close>. \<open>TypeError\<close> is the engine's own error for reading a property of \<open>null\<close> or
  \<open>undefined\<close> or calling what is not a function; it is an \<open>Error\<close> instance whose
  message names the failed access. \<open>NonError\<close> is any thrown value that is not an \<open>Error\<close>.
  \<open>ObjectIdentity\<close> is no JavaScript exception: it marks the one question this model
  of values cannot answer, whether two objects are the same object.
\<close>

datatype js_exception = ErrorObject string | TypeError | NonError | ObjectIdentity

text \<open>
  \<open>v.k\<close> for a property name \<open>k\<close> that no built-in prototype defines (the code reads
  \<open>id\<close>, \<open>difficulty\<close>, \<open>searchVolume\<close> and \<open>competitionLevel\<close>): an own property of
  an object, otherwise \<open>undefined\<close>; a \<open>TypeError\<close> on \<open>null\<close> and \<open>undefined\<close>.
\<close>

fun js_get :: "js_value \<Rightarrow> string \<Rightarrow> js_exception + js_value" where
  "js_get JUndefined k = Inl TypeError"
| "js_get JNull k = Inl TypeError"
| "js_get (JObj ps) k = Inr (case map_of ps k of Some v \<Rightarrow> v | None \<Rightarrow> JUndefined)"
| "js_get v k = Inr JUndefined"

fun is_object :: "js_value \<Rightarrow> bool" where
  "is_object (JArr xs) = True"
| "is_object (JObj ps) = True"
| "is_object v = False"

text \<open>
  \<open>a === b\<close>. Primitive values are compared by value (\<open>NaN\<close> equals nothing); an object
  never equals a primitive; two objects are equal only when they are the same object,
  which these values do not record.
\<close>

definition strict_eq :: "js_value \<Rightarrow> js_value \<Rightarrow> js_exception + bool" where
  "strict_eq a b =
     (if is_object a \<and> is_object b then Inl ObjectIdentity
      else Inr (a = b \<and> a \<noteq> JNum NaN))"

text \<open>\<open>Array.prototype.some\<close> and \<open>Array.prototype.filter\<close>: in index order, stopping
  at the first callback that throws; \<open>some\<close> also stops at the first \<open>true\<close>.\<close>

fun array_some :: "('a \<Rightarrow> js_exception + bool) \<Rightarrow> 'a list \<Rightarrow> js_exception + bool" where
  "array_some f [] = Inr False"
| "array_some f (x # xs) =
     (case f x of
        Inl e \<Rightarrow> Inl e
      | Inr b \<Rightarrow> if b then Inr True else array_some f xs)"

fun array_filter :: "('a \<Rightarrow> js_exception + bool) \<Rightarrow> 'a list \<Rightarrow> js_exception + 'a list" where
  "array_filter f [] = Inr []"
| "array_filter f (x # xs) =
     (case f x of
        Inl e \<Rightarrow> Inl e
      | Inr b \<Rightarrow>
          (case array_filter f xs of
             Inl e \<Rightarrow> Inl e
           | Inr ys \<Rightarrow> Inr (if b then x # ys else ys)))"

text \<open>The decimal name of an array index, as a property key.\<close>

fun index_key :: "nat \<Rightarrow> string" where
  "index_key n =
     (if n < 10 then [''0123456789'' ! n]
      else index_key (n div 10) @ [''0123456789'' ! (n mod 10)])"

declare index_key.simps [simp del]

text \<open>
  The own enumerable properties that an object spread \<open>{...v}\<close> copies: those of an
  object, the elements of an array and the code units of a string under their indices,
  nothing for any other value.
\<close>

fun own_properties :: "js_value \<Rightarrow> (string \<times> js_value) list" where
  "own_properties (JObj ps) = ps"
| "own_properties (JArr xs) = zip (map index_key [0..<length xs]) xs"
| "own_properties (JStr s) = zip (map index_key [0..<length s]) (map (\<lambda>c. JStr [c]) s)"
| "own_properties v = []"

text \<open>\<open>String.prototype.includes\<close>: the search string occurs as a contiguous run.\<close>

definition includes_str :: "string \<Rightarrow> string \<Rightarrow> bool" where
  "includes_str s search = sublist search s"





section \<open>types.ts\<close>

text \<open>
  \<open>DifficultyLevel\<close> and \<open>CompetitionLevel\<close> are the same union of string literals;
  TypeScript's types are structural, so they are one type.
\<close>

datatype DifficultyLevel = Low | Medium | High | Very_High

type_synonym CompetitionLevel = DifficultyLevel

datatype SearchVolumeRange =
  V_0_10 | V_10_100 | V_100_1K | V_1K_10K | V_10K_100K | V_100K_plus

fun level_literal :: "DifficultyLevel \<Rightarrow> string" where
  "level_literal Low = ''Low''"
| "level_literal Medium = ''Medium''"
| "level_literal High = ''High''"
| "level_literal Very_High = ''Very High''"

fun volume_literal :: "SearchVolumeRange \<Rightarrow> string" where
  "volume_literal V_0_10 = ''0-10''"
| "volume_literal V_10_100 = ''10-100''"
| "volume_literal V_100_1K = ''100-1K''"
| "volume_literal V_1K_10K = ''1K-10K''"
| "volume_literal V_10K_100K = ''10K-100K''"
| "volume_literal V_100K_plus = ''100K+''"

definition all_levels :: "DifficultyLevel list" where
  "all_levels = [Low, Medium, High, Very_High]"

definition all_volumes :: "SearchVolumeRange list" where
  "all_volumes = [V_0_10, V_10_100, V_100_1K, V_1K_10K, V_10K_100K, V_100K_plus]"

text \<open>The shapes the interface \<open>KeywordData\<close> declares for its fields.\<close>

fun is_string :: "js_value \<Rightarrow> bool" where
  "is_string (JStr s) = True"
| "is_string v = False"

fun is_string_array :: "js_value \<Rightarrow> bool" where
  "is_string_array (JArr xs) = list_all is_string xs"
| "is_string_array v = False"

definition is_level :: "js_value \<Rightarrow> bool" where
  "is_level v = list_ex (\<lambda>l. v = JStr (level_literal l)) all_levels"

definition is_volume :: "js_value \<Rightarrow> bool" where
  "is_volume v = list_ex (\<lambda>l. v = JStr (volume_literal l)) all_volumes"

definition field_is :: "(string \<times> js_value) list \<Rightarrow> string \<Rightarrow> (js_value \<Rightarrow> bool) \<Rightarrow> bool" where
  "field_is ps k shape = (case map_of ps k of None \<Rightarrow> False | Some v \<Rightarrow> shape v)"

text \<open>\<open>Omit<KeywordData, 'id'>\<close>: the seven fields the service is asked for.\<close>

definition has_seven_fields :: "(string \<times> js_value) list \<Rightarrow> bool" where
  "has_seven_fields ps =
     (field_is ps ''keyword'' is_string \<and>
      field_is ps ''difficulty'' is_level \<and>
      field_is ps ''searchVolume'' is_volume \<and>
      field_is ps ''competitionLevel'' is_level \<and>
      field_is ps ''estimatedCpc'' is_string \<and>
      field_is ps ''contentIdeas'' is_string_array \<and>
      field_is ps ''serpFeatures'' is_string_array)"

fun is_KeywordData :: "js_value \<Rightarrow> bool" where
  "is_KeywordData (JObj ps) = (field_is ps ''id'' is_string \<and> has_seven_fields ps)"
| "is_KeywordData v = False"

section \<open>The host platform\<close>

text \<open>
  The built-in functions and services the code calls are parameters of the model:
  \<open>JSON.parse\<close> (a value, or the exception it throws), \<open>JSON.stringify\<close>,
  \<open>String.prototype.trim\<close>, \<open>parseInt\<close>, \<open>crypto.randomUUID\<close> (the result of its
  \<open>n\<close>-th call), the generation service (for a seed and a count: the exception the request
  ends with, or the \<open>text\<close> of the response, which may be \<open>undefined\<close>) and whether
  \<open>localStorage.setItem\<close> throws for a key and a value (a full or disabled store).
  \<open>localStorage.getItem\<close> and \<open>crypto.randomUUID\<close> are taken to be there and not to
  throw, and \<open>JSON.stringify\<close> not to throw on the values of this model.
\<close>

record platform =
  JSON_parse :: "string \<Rightarrow> js_exception + js_value"
  JSON_stringify :: "js_value \<Rightarrow> string"
  trim :: "string \<Rightarrow> string"
  parseInt :: "string \<Rightarrow> js_number"
  randomUUID :: "nat \<Rightarrow> string"
  generateContent :: "string \<Rightarrow> js_number \<Rightarrow> js_exception + string option"
  setItem_throws :: "string \<Rightarrow> string \<Rightarrow> bool"

text \<open>
  What the code changes outside its own state: the contents of \<open>localStorage\<close>, the
  lines written with \<open>console.error\<close> (the fixed text of each line, without the error
  object printed after it), the calls of the generation client with the request each
  makes (seed and count), and the number of UUIDs drawn so far.
\<close>

record world =
  localStorage :: "string \<rightharpoonup> string"
  console :: "string list"
  service_requests :: "(string \<times> js_number) list"
  uuids_drawn :: nat

definition console_error :: "string \<Rightarrow> world \<Rightarrow> world" where
  "console_error line w = w\<lparr>console := console w @ [line]\<rparr>"

section \<open>services/geminiService.ts\<close>

definition entity_not_found :: string where
  "entity_not_found = ''Requested entity was not found.''"

definition api_key_issue :: string where
  "api_key_issue = ''API Key issue or model not found. Please ensure a valid API key is selected.''"

definition failed_to_fetch :: string where
  "failed_to_fetch = ''Failed to fetch keyword data. Please try again.''"

text \<open>\<open>parsedKeywords.map(kw => ({...kw, id: crypto.randomUUID()}))\<close>, the \<open>n\<close>-th
  UUID being the next one to draw.\<close>

fun assign_ids :: "platform \<Rightarrow> nat \<Rightarrow> js_value list \<Rightarrow> js_value list" where
  "assign_ids P n [] = []"
| "assign_ids P n (kw # kws) =
     JObj (AList.update ''id'' (JStr (randomUUID P n)) (own_properties kw))
       # assign_ids P (Suc n) kws"

text \<open>The body of the \<open>try\<close> block: the request, \<open>response.text.trim()\<close>,
  \<open>JSON.parse\<close> and the \<open>map\<close>, which only an array has.\<close>

definition request_keywords ::
    "platform \<Rightarrow> world \<Rightarrow> string \<Rightarrow> js_number \<Rightarrow> js_exception + js_value list" where
  "request_keywords P w seed count =
     (case generateContent P seed count of
        Inl e \<Rightarrow> Inl e
      | Inr None \<Rightarrow> Inl TypeError
      | Inr (Some text) \<Rightarrow>
          (case JSON_parse P (trim P text) of
             Inl e \<Rightarrow> Inl e
           | Inr (JArr parsedKeywords) \<Rightarrow> Inr (assign_ids P (uuids_drawn w) parsedKeywords)
           | Inr v \<Rightarrow> Inl TypeError))"

text \<open>The \<open>catch\<close> block: the message of the \<open>Error\<close> thrown to the caller. The
  message of an engine \<open>TypeError\<close> names the failed access and does not contain the
  text looked for.\<close>

fun rethrown :: "js_exception \<Rightarrow> string" where
  "rethrown (ErrorObject m) = (if includes_str m entity_not_found then api_key_issue else failed_to_fetch)"
| "rethrown e = failed_to_fetch"

text \<open>The result is the list of records, or \<open>Inl m\<close> for \<open>throw new Error(m)\<close>.\<close>

definition generateKeywordsAndMetrics ::
    "platform \<Rightarrow> world \<Rightarrow> string \<Rightarrow> js_number \<Rightarrow> (string + js_value list) \<times> world" where
  "generateKeywordsAndMetrics P w seed count =
     (let w1 = w\<lparr>service_requests := service_requests w @ [(seed, count)]\<rparr> in
      case request_keywords P w1 seed count of
        Inr generated \<Rightarrow>
          (Inr generated, w1\<lparr>uuids_drawn := uuids_drawn w1 + length generated\<rparr>)
      | Inl e \<Rightarrow>
          (Inl (rethrown e), console_error ''Error generating keywords:'' w1))"

section \<open>App.tsx\<close>

definition LOCAL_STORAGE_KEY :: string where
  "LOCAL_STORAGE_KEY = ''seoKeywords_saved''"

text \<open>A filter is \<open>'All'\<close> or one value of its axis.\<close>

datatype 'a selection = All' | Only 'a

record app_state =
  keywords' :: "js_value list"
  savedKeywords :: js_value
  isLoading :: bool
  error :: "string option"
  hasApiKey :: bool
  selectedDifficultyFilter :: "DifficultyLevel selection"
  selectedVolumeFilter :: "SearchVolumeRange selection"
  selectedCompetitionFilter :: "CompetitionLevel selection"

text \<open>The state of the first render (the \<open>useState\<close> initial values).\<close>

definition initial_state :: app_state where
  "initial_state =
     \<lparr>keywords' = [], savedKeywords = JArr [], isLoading = False, error = None,
      hasApiKey = False, selectedDifficultyFilter = All', selectedVolumeFilter = All',
      selectedCompetitionFilter = All'\<rparr>"

text \<open>\<open>localStorage.getItem\<close> gives \<open>null\<close> for an absent key; \<open>null\<close> and the empty
  string are falsy.\<close>

definition loadSavedKeywords :: "platform \<Rightarrow> app_state \<Rightarrow> world \<Rightarrow> app_state \<times> world" where
  "loadSavedKeywords P st w =
     (case localStorage w LOCAL_STORAGE_KEY of
        None \<Rightarrow> (st, w)
      | Some storedKeywords \<Rightarrow>
          if storedKeywords = [] then (st, w)
          else
            (case JSON_parse P storedKeywords of
               Inr parsed \<Rightarrow> (st\<lparr>savedKeywords := parsed\<rparr>, w)
             | Inl e \<Rightarrow>
                 (st\<lparr>savedKeywords := JArr []\<rparr>,
                  console_error ''Failed to load saved keywords from local storage:'' w)))"

definition saveKeywordsToLocalStorage :: "platform \<Rightarrow> js_value \<Rightarrow> world \<Rightarrow> world" where
  "saveKeywordsToLocalStorage P keywordsToSave w =
     (let json = JSON_stringify P keywordsToSave in
      if setItem_throws P LOCAL_STORAGE_KEY json
      then console_error ''Failed to save keywords to local storage:'' w
      else w\<lparr>localStorage := (localStorage w)(LOCAL_STORAGE_KEY \<mapsto> json)\<rparr>)"

definition api_key_not_selected :: string where
  "api_key_not_selected = ''API Key not selected. Please select your API key to proceed.''"

definition api_key_invalid :: string where
  "api_key_invalid =
     ''API Key invalid or expired, or model not found. Please select your API key again.''"

definition unexpected_error :: string where
  "unexpected_error = ''An unexpected error occurred. Please try again.''"

text \<open>The state and the world when the \<open>async\<close> handler has completed.\<close>

definition handleGenerateKeywords ::
    "platform \<Rightarrow> app_state \<Rightarrow> world \<Rightarrow> string \<Rightarrow> js_number \<Rightarrow> app_state \<times> world" where
  "handleGenerateKeywords P st w seed count =
     (let st1 = st\<lparr>isLoading := True, error := None, keywords' := []\<rparr> in
      if \<not> hasApiKey st
      then (st1\<lparr>error := Some api_key_not_selected, isLoading := False\<rparr>, w)
      else
        (case generateKeywordsAndMetrics P w seed count of
           (Inr generatedKeywords, w') \<Rightarrow>
             (st1\<lparr>keywords' := generatedKeywords, isLoading := False\<rparr>, w')
         | (Inl message, w') \<Rightarrow>
             (if includes_str message entity_not_found
              then st1\<lparr>hasApiKey := False, error := Some api_key_invalid, isLoading := False\<rparr>
              else st1\<lparr>error := Some (if message = [] then unexpected_error else message),
                        isLoading := False\<rparr>,
              console_error ''Failed to generate keywords:'' w')))"

text \<open>The callback of \<open>prevSaved.some\<close>: \<open>kw.id === keywordToSave.id\<close>.\<close>

definition same_id :: "js_value \<Rightarrow> js_value \<Rightarrow> js_exception + bool" where
  "same_id keywordToSave kw =
     (case js_get kw ''id'' of
        Inl e \<Rightarrow> Inl e
      | Inr a \<Rightarrow> (case js_get keywordToSave ''id'' of Inl e \<Rightarrow> Inl e | Inr b \<Rightarrow> strict_eq a b))"

text \<open>An exception leaves the state updater, and the handler, without a new state.\<close>

definition handleSaveKeyword ::
    "platform \<Rightarrow> app_state \<Rightarrow> world \<Rightarrow> js_value \<Rightarrow> js_exception + app_state \<times> world" where
  "handleSaveKeyword P st w keywordToSave =
     (case savedKeywords st of
        JArr prevSaved \<Rightarrow>
          (case array_some (same_id keywordToSave) prevSaved of
             Inl e \<Rightarrow> Inl e
           | Inr found \<Rightarrow>
               if found then Inr (st, w)
               else
                 (let newSaved = JArr (prevSaved @ [keywordToSave]) in
                  Inr (st\<lparr>savedKeywords := newSaved\<rparr>, saveKeywordsToLocalStorage P newSaved w)))
      | v \<Rightarrow> Inl TypeError)"

definition handleClearAllSavedKeywords :: "platform \<Rightarrow> app_state \<Rightarrow> world \<Rightarrow> app_state \<times> world" where
  "handleClearAllSavedKeywords P st w =
     (st\<lparr>savedKeywords := JArr [], selectedDifficultyFilter := All',
         selectedVolumeFilter := All', selectedCompetitionFilter := All'\<rparr>,
      saveKeywordsToLocalStorage P (JArr []) w)"

text \<open>\<open>selected === 'All' || kw.field === selected\<close>: the field is read only under a
  filter that is not \<open>'All'\<close>.\<close>

definition matches :: "('a \<Rightarrow> string) \<Rightarrow> 'a selection \<Rightarrow> string \<Rightarrow> js_value \<Rightarrow> js_exception + bool" where
  "matches literal selected field kw =
     (case selected of
        All' \<Rightarrow> Inr True
      | Only x \<Rightarrow>
          (case js_get kw field of
             Inl e \<Rightarrow> Inl e
           | Inr v \<Rightarrow> strict_eq v (JStr (literal x))))"

definition matches_filters :: "app_state \<Rightarrow> js_value \<Rightarrow> js_exception + bool" where
  "matches_filters st kw =
     (case matches level_literal (selectedDifficultyFilter st) ''difficulty'' kw of
        Inl e \<Rightarrow> Inl e
      | Inr matchesDifficulty \<Rightarrow>
          (case matches volume_literal (selectedVolumeFilter st) ''searchVolume'' kw of
             Inl e \<Rightarrow> Inl e
           | Inr matchesVolume \<Rightarrow>
               (case matches level_literal (selectedCompetitionFilter st) ''competitionLevel'' kw of
                  Inl e \<Rightarrow> Inl e
                | Inr matchesCompetition \<Rightarrow>
                    Inr (matchesDifficulty \<and> matchesVolume \<and> matchesCompetition))))"

definition filteredSavedKeywords :: "app_state \<Rightarrow> js_exception + js_value list" where
  "filteredSavedKeywords st =
     (case savedKeywords st of
        JArr saved \<Rightarrow> array_filter (matches_filters st) saved
      | v \<Rightarrow> Inl TypeError)"

section \<open>components/KeywordInput.tsx\<close>












section \<open>Notions used to state the properties\<close>

text \<open>The \<open>id\<close> of a record that is an object with a string \<open>id\<close>, as every
  \<open>KeywordData\<close> is.\<close>

fun record_id :: "js_value \<Rightarrow> string option" where
  "record_id (JObj ps) = (case map_of ps ''id'' of Some (JStr s) \<Rightarrow> Some s | _ \<Rightarrow> None)"
| "record_id v = None"

definition has_id :: "js_value \<Rightarrow> bool" where
  "has_id kw = (record_id kw \<noteq> None)"

text \<open>The save button pressed on one record after another; an exception ends the run.\<close>

fun save_each ::
    "platform \<Rightarrow> app_state \<Rightarrow> world \<Rightarrow> js_value list \<Rightarrow> js_exception + app_state \<times> world" where
  "save_each P st w [] = Inr (st, w)"
| "save_each P st w (r # rs) =
     (case handleSaveKeyword P st w r of
        Inl e \<Rightarrow> Inl e
      | Inr (st', w') \<Rightarrow> save_each P st' w' rs)"

text \<open>\<open>null\<close> and \<open>undefined\<close>, the two values without properties.\<close>

fun is_nullish :: "js_value \<Rightarrow> bool" where
  "is_nullish JUndefined = True"
| "is_nullish JNull = True"
| "is_nullish v = False"

text \<open>
  The saved view as the specification words it: a filter axis is either no constraint or
  an exact match with one enumerated value, and the view keeps the saved records, in
  their order, that satisfy all three axes.
\<close>

definition axis_holds :: "('a \<Rightarrow> string) \<Rightarrow> 'a selection \<Rightarrow> string \<Rightarrow> js_value \<Rightarrow> bool" where
  "axis_holds literal selected field kw =
     (case selected of All' \<Rightarrow> True | Only x \<Rightarrow> js_get kw field = Inr (JStr (literal x)))"

definition visibleSaved_spec ::
    "DifficultyLevel selection \<Rightarrow> SearchVolumeRange selection \<Rightarrow> CompetitionLevel selection
      \<Rightarrow> js_value list \<Rightarrow> js_value list" where
  "visibleSaved_spec d v c saved =
     filter (\<lambda>kw. axis_holds level_literal d ''difficulty'' kw
                 \<and> axis_holds volume_literal v ''searchVolume'' kw
                 \<and> axis_holds level_literal c ''competitionLevel'' kw) saved"

text \<open>A count between 1 and 20.\<close>

fun in_range :: "js_number \<Rightarrow> bool" where
  "in_range (Num q) = (1 \<le> q \<and> q \<le> 20)"
| "in_range n = False"


section \<open>A concrete platform, for evaluating the model\<close>

text \<open>
  Two records as the generation client returns them (the \<open>id\<close> last), the JSON text of
  the collection that holds the first, and a reply of the service that holds two objects,
  the second of them outside the schema.
\<close>

definition example_fields :: "(string \<times> js_value) list" where
  "example_fields =
     [(''keyword'', JStr ''solar panels''), (''difficulty'', JStr ''Low''),
      (''searchVolume'', JStr ''1K-10K''), (''competitionLevel'', JStr ''Medium''),
      (''estimatedCpc'', JStr ''N/A''), (''contentIdeas'', JArr [JStr ''guide'']),
      (''serpFeatures'', JArr [JStr ''Videos''])]"

definition example_A :: js_value where
  "example_A = JObj (example_fields @ [(''id'', JStr ''a1'')])"

definition example_B :: js_value where
  "example_B =
     JObj [(''keyword'', JStr ''solar roof''), (''difficulty'', JStr ''High''),
           (''searchVolume'', JStr ''0-10''), (''competitionLevel'', JStr ''Low''),
           (''estimatedCpc'', JStr ''N/A''), (''contentIdeas'', JArr []),
           (''serpFeatures'', JArr []), (''id'', JStr ''b2'')]"

definition example_json :: string where
  \<open>example_json = ''[{"keyword":"solar panels","difficulty":"Low","searchVolume":"1K-10K","competitionLevel":"Medium","estimatedCpc":"N/A","contentIdeas":["guide"],"serpFeatures":["Videos"],"id":"a1"}]''\<close>

definition example_reply :: string where
  \<open>example_reply = ''[{"keyword":"solar panels","difficulty":"Low","searchVolume":"1K-10K","competitionLevel":"Medium","estimatedCpc":"N/A","contentIdeas":["guide"],"serpFeatures":["Videos"]},{"difficulty":"Extreme"}]''\<close>

text \<open>\<open>JSON.parse\<close> and \<open>JSON.stringify\<close> on the texts and values above, \<open>trim\<close> on
  spaces, \<open>parseInt\<close> on a few numerals.\<close>

definition example_parse :: "string \<Rightarrow> js_exception + js_value" where
  "example_parse s =
     (if s = ''[]'' then Inr (JArr [])
      else if s = ''5'' then Inr (JNum (Num 5))
      else if s = example_json then Inr (JArr [example_A])
      else if s = example_reply
        then Inr (JArr [JObj example_fields, JObj [(''difficulty'', JStr ''Extreme'')]])
      else Inl (ErrorObject ''Unexpected token''))"

definition example_stringify :: "js_value \<Rightarrow> string" where
  "example_stringify v =
     (if v = JArr [] then ''[]'' else if v = JArr [example_A] then example_json else ''null'')"

definition example_trim :: "string \<Rightarrow> string" where
  "example_trim s =
     rev (dropWhile (\<lambda>c. c = CHR '' '') (rev (dropWhile (\<lambda>c. c = CHR '' '') s)))"

definition example_parseInt :: "string \<Rightarrow> js_number" where
  "example_parseInt s =
     (if s = ''7'' then Num 7 else if s = ''25'' then Num 25 else if s = ''0'' then Num 0
      else if s = ''-3'' then Num (- 3) else NaN)"

definition example_platform :: platform where
  "example_platform =
     \<lparr>JSON_parse = example_parse, JSON_stringify = example_stringify, trim = example_trim,
      parseInt = example_parseInt, randomUUID = (\<lambda>n. ''uuid-'' @ index_key n),
      generateContent = (\<lambda>seed count. Inr (Some example_reply)),
      setItem_throws = (\<lambda>k v. False)\<rparr>"

definition example_world :: world where
  "example_world =
     \<lparr>localStorage = Map.empty, console = [], service_requests = [], uuids_drawn = 0\<rparr>"

text \<open>What the generation client makes of the reply above.\<close>

definition example_generated :: "js_value list" where
  "example_generated =
     [JObj (example_fields @ [(''id'', JStr ''uuid-0'')]),
      JObj [(''difficulty'', JStr ''Extreme''), (''id'', JStr ''uuid-1'')]]"

section \<open>JSON text\<close>

text \<open>
  Modelled from the spec: the value stored under the key is "the JSON serialization of
  \<open>savedRecords\<close>". \<open>JSON.stringify\<close> and \<open>JSON.parse\<close> are built into the host and are
  no code of the repository; the model follows ECMA-262 (\<open>JSON.stringify\<close> without replacer
  or indentation, \<open>JSON.parse\<close> without reviver) on values built from \<open>null\<close>, booleans,
  strings, arrays and objects. Where the model gives no answer the host's answer is left
  open: for numbers (their text is the text of a double), for \<open>undefined\<close>, for an escape
  \<open>\u....\<close> that names a code unit above 255, and for an object text with a property name
  made of digits (array indices come first among the properties of an object, whatever
  their place in the text).
\<close>

datatype 'a parsed = Ok 'a string | Malformed | Unanswered






subsection \<open>Writing\<close>






subsection \<open>Reading\<close>









subsection \<open>The values that JSON text holds exactly\<close>





subsection \<open>A host whose JSON is the model's\<close>



section \<open>Records of the declared type\<close>

text \<open>The properties below speak of records with a string \<open>id\<close>, or of records
  that are not \<open>null\<close>. Every \<open>KeywordData\<close> is such a record, and so is every
  record the generation client returns.\<close>

lemma KeywordData_has_id: "is_KeywordData kw \<Longrightarrow> has_id kw"
  by (cases kw) (auto simp: has_id_def field_is_def split: option.splits js_value.splits)

lemma KeywordData_not_nullish: "is_KeywordData kw \<Longrightarrow> \<not> is_nullish kw"
  by (cases kw) simp_all

lemma has_id_not_nullish: "has_id kw \<Longrightarrow> \<not> is_nullish kw"
  by (cases kw) (simp_all add: has_id_def)

lemma assign_ids_have_id: "list_all has_id (assign_ids P n kws)"
  by (induction kws arbitrary: n) (simp_all add: has_id_def update_conv')

section \<open>Saving a record\<close>

lemma record_id_get:
  "record_id v = Some i \<Longrightarrow> js_get v ''id'' = Inr (JStr i)"
  by (cases v) (auto split: option.splits js_value.splits)

lemma same_id_ids:
  "record_id r = Some i \<Longrightarrow> record_id kw = Some j \<Longrightarrow> same_id r kw = Inr (j = i)"
  by (simp add: same_id_def record_id_get strict_eq_def)

lemma array_some_same_id:
  "record_id r = Some i \<Longrightarrow> list_all has_id xs \<Longrightarrow>
   array_some (same_id r) xs = Inr (list_ex (\<lambda>kw. record_id kw = Some i) xs)"
proof (induction xs)
  case Nil
  then show ?case by simp
next
  case (Cons kw xs)
  from Cons.prems obtain j where j: "record_id kw = Some j"
    by (auto simp: has_id_def)
  with Cons show ?case
    by (simp add: same_id_ids)
qed

lemma handleSaveKeyword_ids:
  assumes "savedKeywords st = JArr xs" and "list_all has_id xs" and "record_id r = Some i"
  shows "handleSaveKeyword P st w r =
     (if list_ex (\<lambda>kw. record_id kw = Some i) xs then Inr (st, w)
      else Inr (st\<lparr>savedKeywords := JArr (xs @ [r])\<rparr>,
                saveKeywordsToLocalStorage P (JArr (xs @ [r])) w))"
  using assms by (simp add: handleSaveKeyword_def array_some_same_id Let_def)

lemma save_twice:
  assumes "savedKeywords st = JArr xs" and "list_all has_id xs" and "record_id a = Some i"
  shows "save_each P st w [a, a] = save_each P st w [a]"
proof (cases "list_ex (\<lambda>kw. record_id kw = Some i) xs")
  case True
  with assms show ?thesis by (simp add: handleSaveKeyword_ids)
next
  case False
  have "list_all has_id (xs @ [a])"
    using assms by (simp add: has_id_def)
  moreover have "list_ex (\<lambda>kw. record_id kw = Some i) (xs @ [a])"
    using assms by simp
  ultimately show ?thesis
    using assms False
    by (simp add: handleSaveKeyword_ids [where xs = xs]
        handleSaveKeyword_ids [where xs = "xs @ [a]"])
qed

lemma save_a_a_b:
  assumes "record_id a = Some i" and "record_id b = Some j" and "j \<noteq> i"
  shows "map_sum id (savedKeywords \<circ> fst)
           (save_each P (st\<lparr>savedKeywords := JArr []\<rparr>) w [a, a, b]) = Inr (JArr [a, b])"
proof -
  have 1: "handleSaveKeyword P (st\<lparr>savedKeywords := JArr []\<rparr>) w a
      = Inr (st\<lparr>savedKeywords := JArr [a]\<rparr>, saveKeywordsToLocalStorage P (JArr [a]) w)"
    using assms by (simp add: handleSaveKeyword_ids [where xs = "[]"])
  have 2: "handleSaveKeyword P (st\<lparr>savedKeywords := JArr [a]\<rparr>) w' a
      = Inr (st\<lparr>savedKeywords := JArr [a]\<rparr>, w')" for w'
    using assms by (simp add: handleSaveKeyword_ids [where xs = "[a]"] has_id_def)
  have 3: "handleSaveKeyword P (st\<lparr>savedKeywords := JArr [a]\<rparr>) w' b
      = Inr (st\<lparr>savedKeywords := JArr [a, b]\<rparr>, saveKeywordsToLocalStorage P (JArr [a, b]) w')"
    for w'
    using assms by (simp add: handleSaveKeyword_ids [where xs = "[a]"] has_id_def)
  show ?thesis
    by (simp add: 1 2 3)
qed

lemma state_ignores_setItem:
  "map_sum id fst (handleSaveKeyword (P\<lparr>setItem_throws := f\<rparr>) st w r)
     = map_sum id fst (handleSaveKeyword P st w r)"
  by (simp add: handleSaveKeyword_def Let_def split: js_value.splits sum.splits)

lemma save_fails:
  "setItem_throws P LOCAL_STORAGE_KEY (JSON_stringify P v) \<Longrightarrow>
   saveKeywordsToLocalStorage P v w = console_error ''Failed to save keywords to local storage:'' w"
  by (simp add: saveKeywordsToLocalStorage_def Let_def)


text \<open>
  Claim C3. \<open>saveRecord\<close> is idempotent on \<open>id\<close>. For every saved collection \<open>xs\<close> of
  records with an id and every such record \<open>a\<close>: saving \<open>a\<close> twice ends in the very
  state and store that saving it once ends in, so the collection is no larger; when a
  saved record already carries the id of \<open>a\<close>, the save changes nothing at all; and from
  the empty collection the saves of \<open>a\<close>, \<open>a\<close>, \<open>b\<close>, with \<open>b\<close> of another id, leave
  exactly \<open>[a, b]\<close>.
\<close>

theorem saveRecord_idempotent:
  assumes "savedKeywords st = JArr xs" and "list_all has_id xs" and "record_id a = Some i"
  shows "save_each P st w [a, a] = save_each P st w [a]
    \<and> (list_ex (\<lambda>kw. record_id kw = Some i) xs \<longrightarrow> handleSaveKeyword P st w a = Inr (st, w))
    \<and> (\<forall>b j. record_id b = Some j \<and> j \<noteq> i \<longrightarrow>
          map_sum id (savedKeywords \<circ> fst)
            (save_each P (st\<lparr>savedKeywords := JArr []\<rparr>) w [a, a, b]) = Inr (JArr [a, b]))"
  using assms by (simp add: save_twice save_a_a_b handleSaveKeyword_ids del: save_each.simps)

lemma example_ids:
  "record_id example_A = Some ''a1''" "record_id example_B = Some ''b2''"
  by (simp_all add: example_A_def example_B_def example_fields_def)

theorem saveRecord_idempotent_witness:
  "save_each example_platform (initial_state\<lparr>savedKeywords := JArr [example_A]\<rparr>)
       example_world [example_A, example_A]
     = Inr (initial_state\<lparr>savedKeywords := JArr [example_A]\<rparr>, example_world)
   \<and> handleSaveKeyword example_platform (initial_state\<lparr>savedKeywords := JArr [example_A]\<rparr>)
       example_world example_A
     = Inr (initial_state\<lparr>savedKeywords := JArr [example_A]\<rparr>, example_world)
   \<and> map_sum id (savedKeywords \<circ> fst)
       (save_each example_platform (initial_state\<lparr>savedKeywords := JArr []\<rparr>) example_world
          [example_A, example_A, example_B])
     = Inr (JArr [example_A, example_B])"
proof -
  let ?st = "initial_state\<lparr>savedKeywords := JArr [example_A]\<rparr>"
  have saved: "savedKeywords ?st = JArr [example_A]"
    by simp
  have ids: "list_all has_id [example_A]"
    by (simp add: has_id_def example_ids)
  note inst = saveRecord_idempotent [OF saved ids example_ids(1), of example_platform example_world]
  have once: "handleSaveKeyword example_platform ?st example_world example_A
      = Inr (?st, example_world)"
    using inst by (simp add: example_ids)
  have twice: "save_each example_platform ?st example_world [example_A, example_A]
      = Inr (?st, example_world)"
    using inst once by simp
  have "map_sum id (savedKeywords \<circ> fst)
       (save_each example_platform (?st\<lparr>savedKeywords := JArr []\<rparr>) example_world
          [example_A, example_A, example_B])
     = Inr (JArr [example_A, example_B])"
    using inst example_ids(2) by blast
  with once twice show ?thesis
    by simp
qed

section \<open>A failing write\<close>

text \<open>
  Claim C8. A failing store write neither rolls back nor escapes. Whatever
  \<open>setItem\<close> does, the state that \<open>handleSaveKeyword\<close> and
  \<open>handleClearAllSavedKeywords\<close> return is the state of the run whose write succeeds. When
  the write of a new record throws, the handler still returns normally, with the record
  appended in memory, the store as it was and one line on the console; when the write of
  the cleared collection throws, the collection is still empty in memory and the filters
  reset, again with only the console line.
\<close>

theorem persistence_failure_keeps_memory:
  assumes "savedKeywords st = JArr xs" and "list_all has_id xs" and "record_id r = Some i"
    and "\<not> list_ex (\<lambda>kw. record_id kw = Some i) xs"
  shows "map_sum id fst (handleSaveKeyword P st w r)
           = map_sum id fst (handleSaveKeyword (P\<lparr>setItem_throws := \<lambda>k v. False\<rparr>) st w r)
    \<and> fst (handleClearAllSavedKeywords P st w)
        = fst (handleClearAllSavedKeywords (P\<lparr>setItem_throws := \<lambda>k v. False\<rparr>) st w)
    \<and> (setItem_throws P LOCAL_STORAGE_KEY (JSON_stringify P (JArr (xs @ [r]))) \<longrightarrow>
          handleSaveKeyword P st w r =
            Inr (st\<lparr>savedKeywords := JArr (xs @ [r])\<rparr>,
                 console_error ''Failed to save keywords to local storage:'' w))
    \<and> (setItem_throws P LOCAL_STORAGE_KEY (JSON_stringify P (JArr [])) \<longrightarrow>
          handleClearAllSavedKeywords P st w =
            (st\<lparr>savedKeywords := JArr [], selectedDifficultyFilter := All',
                selectedVolumeFilter := All', selectedCompetitionFilter := All'\<rparr>,
             console_error ''Failed to save keywords to local storage:'' w))
    \<and> localStorage (console_error ''Failed to save keywords to local storage:'' w)
        = localStorage w"
  using assms
  by (simp add: handleSaveKeyword_ids save_fails state_ignores_setItem
      handleClearAllSavedKeywords_def console_error_def)

theorem persistence_failure_keeps_memory_witness:
  "handleSaveKeyword (example_platform\<lparr>setItem_throws := \<lambda>k v. True\<rparr>)
       (initial_state\<lparr>savedKeywords := JArr [example_A]\<rparr>) example_world example_B
     = Inr (initial_state\<lparr>savedKeywords := JArr [example_A, example_B]\<rparr>,
            example_world\<lparr>console := [''Failed to save keywords to local storage:'']\<rparr>)
   \<and> handleClearAllSavedKeywords (example_platform\<lparr>setItem_throws := \<lambda>k v. True\<rparr>)
       (initial_state\<lparr>savedKeywords := JArr [example_A]\<rparr>) example_world
     = (initial_state,
        example_world\<lparr>console := [''Failed to save keywords to local storage:'']\<rparr>)"
proof -
  let ?st = "initial_state\<lparr>savedKeywords := JArr [example_A]\<rparr>"
  have saved: "savedKeywords ?st = JArr [example_A]"
    by simp
  have ids: "list_all has_id [example_A]"
    by (simp add: has_id_def example_ids)
  have fresh: "\<not> list_ex (\<lambda>kw. record_id kw = Some ''b2'') [example_A]"
    by (simp add: example_ids)
  show ?thesis
    using persistence_failure_keeps_memory [OF saved ids example_ids(2) fresh,
        of "example_platform\<lparr>setItem_throws := \<lambda>k v. True\<rparr>" example_world]
    by (simp add: console_error_def example_world_def initial_state_def)
qed

section \<open>Clearing the saved records\<close>

text \<open>
  Claim C4. From every state, whatever is saved and whatever the filters select,
  \<open>handleClearAllSavedKeywords\<close> leaves the saved collection empty, hands the empty
  collection to \<open>saveKeywordsToLocalStorage\<close> (so the store holds its JSON text under the
  key unless the write throws) and sets the three filters to \<open>'All'\<close>; the filtered view
  of the new state is empty.
\<close>

theorem clearSaved_empties:
  "handleClearAllSavedKeywords P st w = (st', w') \<Longrightarrow>
     savedKeywords st' = JArr []
   \<and> selectedDifficultyFilter st' = All' \<and> selectedVolumeFilter st' = All'
   \<and> selectedCompetitionFilter st' = All'
   \<and> filteredSavedKeywords st' = Inr []
   \<and> w' = saveKeywordsToLocalStorage P (JArr []) w
   \<and> (\<not> setItem_throws P LOCAL_STORAGE_KEY (JSON_stringify P (JArr [])) \<longrightarrow>
        localStorage w' LOCAL_STORAGE_KEY = Some (JSON_stringify P (JArr [])))"
  by (auto simp: handleClearAllSavedKeywords_def filteredSavedKeywords_def
      saveKeywordsToLocalStorage_def Let_def)

lemma example_clear:
  "handleClearAllSavedKeywords example_platform
       (initial_state\<lparr>savedKeywords := JArr [example_A, example_B],
          selectedDifficultyFilter := Only High\<rparr>) example_world
     = (initial_state, example_world\<lparr>localStorage := [LOCAL_STORAGE_KEY \<mapsto> ''[]'']\<rparr>)"
  by (simp add: handleClearAllSavedKeywords_def saveKeywordsToLocalStorage_def
      initial_state_def example_platform_def example_stringify_def example_world_def)

theorem clearSaved_empties_witness:
  "handleClearAllSavedKeywords example_platform
       (initial_state\<lparr>savedKeywords := JArr [example_A, example_B],
          selectedDifficultyFilter := Only High\<rparr>) example_world
     = (initial_state, example_world\<lparr>localStorage := [LOCAL_STORAGE_KEY \<mapsto> ''[]'']\<rparr>)
   \<and> savedKeywords initial_state = JArr []
   \<and> selectedDifficultyFilter initial_state = All'
   \<and> filteredSavedKeywords initial_state = Inr []
   \<and> localStorage (example_world\<lparr>localStorage := [LOCAL_STORAGE_KEY \<mapsto> ''[]'']\<rparr>)
        LOCAL_STORAGE_KEY = Some ''[]''"
  using example_clear clearSaved_empties [OF example_clear]
  by (simp add: example_platform_def example_stringify_def saveKeywordsToLocalStorage_def)

section \<open>The filtered view\<close>

lemma js_get_not_nullish:
  "\<not> is_nullish kw \<Longrightarrow> \<exists>v. js_get kw k = Inr v"
  by (cases kw) auto

lemma strict_eq_JStr: "strict_eq v (JStr s) = Inr (v = JStr s)"
  by (auto simp: strict_eq_def)

lemma matches_axis:
  "\<not> is_nullish kw \<Longrightarrow> matches literal selected field kw = Inr (axis_holds literal selected field kw)"
  using js_get_not_nullish [of kw field]
  by (auto simp: matches_def axis_holds_def strict_eq_JStr split: selection.splits)

lemma matches_filters_axes:
  "\<not> is_nullish kw \<Longrightarrow>
   matches_filters st kw =
     Inr (axis_holds level_literal (selectedDifficultyFilter st) ''difficulty'' kw
        \<and> axis_holds volume_literal (selectedVolumeFilter st) ''searchVolume'' kw
        \<and> axis_holds level_literal (selectedCompetitionFilter st) ''competitionLevel'' kw)"
  by (simp add: matches_filters_def matches_axis)

lemma array_filter_total:
  "list_all (\<lambda>x. f x = Inr (p x)) xs \<Longrightarrow> array_filter f xs = Inr (filter p xs)"
  by (induction xs) auto

lemma filtered_spec:
  assumes "savedKeywords st = JArr saved" and "list_all (\<lambda>kw. \<not> is_nullish kw) saved"
  shows "filteredSavedKeywords st =
     Inr (visibleSaved_spec (selectedDifficultyFilter st) (selectedVolumeFilter st)
            (selectedCompetitionFilter st) saved)"
proof -
  have "list_all (\<lambda>kw. matches_filters st kw =
      Inr (axis_holds level_literal (selectedDifficultyFilter st) ''difficulty'' kw
        \<and> axis_holds volume_literal (selectedVolumeFilter st) ''searchVolume'' kw
        \<and> axis_holds level_literal (selectedCompetitionFilter st) ''competitionLevel'' kw)) saved"
    using assms(2) by (induction saved) (simp_all add: matches_filters_axes)
  then show ?thesis
    using assms(1) by (simp add: filteredSavedKeywords_def visibleSaved_spec_def array_filter_total)
qed

lemma matches_filters_All:
  "selectedDifficultyFilter st = All' \<Longrightarrow> selectedVolumeFilter st = All' \<Longrightarrow>
   selectedCompetitionFilter st = All' \<Longrightarrow> matches_filters st kw = Inr True"
  by (simp add: matches_filters_def matches_def)

lemma filtered_All:
  assumes "savedKeywords st = JArr saved" and "selectedDifficultyFilter st = All'"
    and "selectedVolumeFilter st = All'" and "selectedCompetitionFilter st = All'"
  shows "filteredSavedKeywords st = Inr saved"
proof -
  have "array_filter (matches_filters st) xs = Inr xs" for xs
    using assms by (induction xs) (simp_all add: matches_filters_All)
  with assms(1) show ?thesis by (simp add: filteredSavedKeywords_def)
qed

lemma filtered_depends:
  assumes "savedKeywords st' = savedKeywords st"
    and "selectedDifficultyFilter st' = selectedDifficultyFilter st"
    and "selectedVolumeFilter st' = selectedVolumeFilter st"
    and "selectedCompetitionFilter st' = selectedCompetitionFilter st"
  shows "filteredSavedKeywords st' = filteredSavedKeywords st"
proof -
  have m: "matches_filters st' = matches_filters st"
    unfolding matches_filters_def assms(2-4) by (rule refl)
  show ?thesis
    unfolding filteredSavedKeywords_def assms(1) m by (rule refl)
qed

text \<open>
  Claim C5. \<open>filteredSavedKeywords\<close> depends on the saved collection and the three
  filters only. For every saved array of records (no \<open>null\<close> among them) and every
  selection it is exactly the view the specification describes: the saved records, in
  their order, that satisfy all three axes, an axis being no constraint or an exact
  match with one enumerated value. With the three filters at \<open>'All'\<close> it is the saved
  array itself.
\<close>

theorem visibleSaved_is_filter:
  assumes "savedKeywords st = JArr saved" and "list_all (\<lambda>kw. \<not> is_nullish kw) saved"
  shows "filteredSavedKeywords st =
           Inr (visibleSaved_spec (selectedDifficultyFilter st) (selectedVolumeFilter st)
                  (selectedCompetitionFilter st) saved)
    \<and> (selectedDifficultyFilter st = All' \<and> selectedVolumeFilter st = All'
          \<and> selectedCompetitionFilter st = All' \<longrightarrow> filteredSavedKeywords st = Inr saved)
    \<and> (\<forall>st'. savedKeywords st' = savedKeywords st
            \<and> selectedDifficultyFilter st' = selectedDifficultyFilter st
            \<and> selectedVolumeFilter st' = selectedVolumeFilter st
            \<and> selectedCompetitionFilter st' = selectedCompetitionFilter st
          \<longrightarrow> filteredSavedKeywords st' = filteredSavedKeywords st)"
proof (intro conjI allI impI)
  show "filteredSavedKeywords st =
      Inr (visibleSaved_spec (selectedDifficultyFilter st) (selectedVolumeFilter st)
             (selectedCompetitionFilter st) saved)"
    using assms by (rule filtered_spec)
next
  assume "selectedDifficultyFilter st = All' \<and> selectedVolumeFilter st = All'
      \<and> selectedCompetitionFilter st = All'"
  with assms(1) show "filteredSavedKeywords st = Inr saved"
    by (simp add: filtered_All)
next
  fix st' :: app_state
  assume "savedKeywords st' = savedKeywords st
      \<and> selectedDifficultyFilter st' = selectedDifficultyFilter st
      \<and> selectedVolumeFilter st' = selectedVolumeFilter st
      \<and> selectedCompetitionFilter st' = selectedCompetitionFilter st"
  then show "filteredSavedKeywords st' = filteredSavedKeywords st"
    using filtered_depends [of st' st] by blast
qed

theorem visibleSaved_is_filter_witness:
  "filteredSavedKeywords
       (initial_state\<lparr>savedKeywords := JArr [example_A, example_B],
          selectedDifficultyFilter := Only High, selectedCompetitionFilter := Only Low\<rparr>)
     = Inr [example_B]
   \<and> filteredSavedKeywords (initial_state\<lparr>savedKeywords := JArr [example_A, example_B]\<rparr>)
     = Inr [example_A, example_B]
   \<and> filteredSavedKeywords
       (initial_state\<lparr>savedKeywords := JArr [example_A, example_B],
          selectedDifficultyFilter := Only High, selectedCompetitionFilter := Only Low,
          isLoading := True\<rparr>)
     = Inr [example_B]"
proof -
  let ?st = "initial_state\<lparr>savedKeywords := JArr [example_A, example_B],
          selectedDifficultyFilter := Only High, selectedCompetitionFilter := Only Low\<rparr>"
  let ?all = "initial_state\<lparr>savedKeywords := JArr [example_A, example_B]\<rparr>"
  have records: "list_all (\<lambda>kw. \<not> is_nullish kw) [example_A, example_B]"
    by (simp add: example_A_def example_B_def)
  have view: "visibleSaved_spec (Only High) All' (Only Low) [example_A, example_B] = [example_B]"
    by (simp add: visibleSaved_spec_def axis_holds_def example_A_def example_B_def
        example_fields_def)
  have saved: "savedKeywords ?st = JArr [example_A, example_B]"
      "savedKeywords ?all = JArr [example_A, example_B]"
    by simp_all
  note filtered = visibleSaved_is_filter [OF saved(1) records]
  note unfiltered = visibleSaved_is_filter [OF saved(2) records]
  have 1: "filteredSavedKeywords ?st = Inr [example_B]"
    using filtered [THEN conjunct1] view by (simp add: initial_state_def)
  have 2: "filteredSavedKeywords ?all = Inr [example_A, example_B]"
    using unfiltered [THEN conjunct2, THEN conjunct1] by (simp add: initial_state_def)
  have 3: "filteredSavedKeywords (?st\<lparr>isLoading := True\<rparr>) = filteredSavedKeywords ?st"
    using filtered [THEN conjunct2, THEN conjunct2, THEN spec, of "?st\<lparr>isLoading := True\<rparr>"]
    by simp
  from 1 2 3 show ?thesis
    by simp
qed

section \<open>Generating without a key\<close>

text \<open>
  Claim C6, as the code has it. In every state without an API key,
  \<open>handleGenerateKeywords\<close> ends with the error set to the missing-key message, the
  generated batch emptied and the loading flag off; the generation client is not called
  (the world, with its list of requests, is returned as it was) and every other part of
  the state is as before. The batch is not kept: the handler clears it, together with
  the error, before it looks at the key.
\<close>

theorem guarded_generation:
  "\<not> hasApiKey st \<Longrightarrow>
   handleGenerateKeywords P st w seed count =
     (st\<lparr>isLoading := False, error := Some api_key_not_selected, keywords' := []\<rparr>, w)"
  by (simp add: handleGenerateKeywords_def Let_def)

theorem guarded_generation_witness:
  "\<not> hasApiKey (initial_state\<lparr>keywords' := [example_A]\<rparr>)
   \<and> handleGenerateKeywords example_platform (initial_state\<lparr>keywords' := [example_A]\<rparr>)
       example_world ''solar panels'' (Num 5)
     = (initial_state\<lparr>error := Some api_key_not_selected\<rparr>, example_world)"
  using guarded_generation [of "initial_state\<lparr>keywords' := [example_A]\<rparr>" example_platform
      example_world "''solar panels''" "Num 5"]
  by (simp add: initial_state_def)

text \<open>The claim as stated fails: a batch of one record is gone after the guarded call.\<close>

theorem guarded_generation_clears_batch:
  "\<not> hasApiKey (initial_state\<lparr>keywords' := [example_A]\<rparr>)
   \<and> keywords' (fst (handleGenerateKeywords example_platform
        (initial_state\<lparr>keywords' := [example_A]\<rparr>) example_world ''solar panels'' (Num 5)))
     \<noteq> keywords' (initial_state\<lparr>keywords' := [example_A]\<rparr>)"
  by (simp add: handleGenerateKeywords_def Let_def initial_state_def)

section \<open>Loading at startup\<close>

text \<open>
  Claim C10. \<open>loadSavedKeywords\<close> validates nothing. When the store holds a non-empty
  string under the key and \<open>JSON.parse\<close> returns a value for it, the saved collection
  becomes that value as it is, of whatever shape; when \<open>JSON.parse\<close> throws, the saved
  collection becomes the empty array (and the console gets a line); when the key is
  absent (or holds the empty string, which is falsy and never parsed) the state is left
  as it was.
\<close>

theorem load_is_unvalidated:
  "(localStorage w LOCAL_STORAGE_KEY = Some s \<and> s \<noteq> [] \<and> JSON_parse P s = Inr v \<longrightarrow>
      loadSavedKeywords P st w = (st\<lparr>savedKeywords := v\<rparr>, w))
   \<and> (localStorage w LOCAL_STORAGE_KEY = Some s \<and> s \<noteq> [] \<and> JSON_parse P s = Inl e \<longrightarrow>
      loadSavedKeywords P st w =
        (st\<lparr>savedKeywords := JArr []\<rparr>,
         console_error ''Failed to load saved keywords from local storage:'' w))
   \<and> (localStorage w LOCAL_STORAGE_KEY = None \<or> localStorage w LOCAL_STORAGE_KEY = Some [] \<longrightarrow>
      loadSavedKeywords P st w = (st, w))"
  by (simp add: loadSavedKeywords_def)

theorem load_is_unvalidated_witness:
  "loadSavedKeywords example_platform initial_state
       (example_world\<lparr>localStorage := [LOCAL_STORAGE_KEY \<mapsto> ''5'']\<rparr>)
     = (initial_state\<lparr>savedKeywords := JNum (Num 5)\<rparr>,
        example_world\<lparr>localStorage := [LOCAL_STORAGE_KEY \<mapsto> ''5'']\<rparr>)
   \<and> loadSavedKeywords example_platform (initial_state\<lparr>savedKeywords := JArr [example_A]\<rparr>)
       (example_world\<lparr>localStorage := [LOCAL_STORAGE_KEY \<mapsto> ''[oops'']\<rparr>)
     = (initial_state,
        example_world\<lparr>localStorage := [LOCAL_STORAGE_KEY \<mapsto> ''[oops''],
          console := [''Failed to load saved keywords from local storage:'']\<rparr>)
   \<and> loadSavedKeywords example_platform initial_state example_world
     = (initial_state, example_world)"
proof -
  let ?five = "example_world\<lparr>localStorage := [LOCAL_STORAGE_KEY \<mapsto> ''5'']\<rparr>"
  let ?broken = "example_world\<lparr>localStorage := [LOCAL_STORAGE_KEY \<mapsto> ''[oops'']\<rparr>"
  have parse5: "JSON_parse example_platform ''5'' = Inr (JNum (Num 5))"
    by (simp add: example_platform_def example_parse_def)
  have parse_broken: "JSON_parse example_platform ''[oops'' = Inl (ErrorObject ''Unexpected token'')"
    by (simp add: example_platform_def example_parse_def example_json_def example_reply_def)
  have 1: "loadSavedKeywords example_platform initial_state ?five
      = (initial_state\<lparr>savedKeywords := JNum (Num 5)\<rparr>, ?five)"
    using load_is_unvalidated [of ?five "''5''" example_platform "JNum (Num 5)" initial_state]
      parse5
    by simp
  have 2: "loadSavedKeywords example_platform (initial_state\<lparr>savedKeywords := JArr [example_A]\<rparr>)
        ?broken
      = (initial_state\<lparr>savedKeywords := JArr []\<rparr>,
         console_error ''Failed to load saved keywords from local storage:'' ?broken)"
    using load_is_unvalidated [of ?broken "''[oops''" example_platform _
        "initial_state\<lparr>savedKeywords := JArr [example_A]\<rparr>" "ErrorObject ''Unexpected token''"]
      parse_broken
    by simp
  have 3: "loadSavedKeywords example_platform initial_state example_world
      = (initial_state, example_world)"
    using load_is_unvalidated [of example_world _ example_platform _ initial_state]
    by (simp add: example_world_def)
  from 1 2 3 show ?thesis
    by (simp add: console_error_def example_world_def initial_state_def)
qed

section \<open>The count input\<close>













section \<open>A failing generation\<close>

lemma issue_hides_signature: "\<not> includes_str api_key_issue entity_not_found"
  unfolding includes_str_def api_key_issue_def entity_not_found_def by code_simp

lemma fetch_hides_signature: "\<not> includes_str failed_to_fetch entity_not_found"
  unfolding includes_str_def failed_to_fetch_def entity_not_found_def by code_simp

lemma rethrown_hides_signature: "\<not> includes_str (rethrown e) entity_not_found"
  by (cases e) (simp_all add: issue_hides_signature fetch_hides_signature)

lemma rethrown_not_empty: "rethrown e \<noteq> []"
  by (cases e) (simp_all add: api_key_issue_def failed_to_fetch_def)

lemma generate_failure:
  assumes "request_keywords P (w\<lparr>service_requests := service_requests w @ [(seed, count)]\<rparr>) seed count = Inl e"
    and "hasApiKey st"
  shows "handleGenerateKeywords P st w seed count =
     (st\<lparr>isLoading := False, error := Some (rethrown e), keywords' := []\<rparr>,
      console_error ''Failed to generate keywords:''
        (console_error ''Error generating keywords:''
           (w\<lparr>service_requests := service_requests w @ [(seed, count)]\<rparr>)))"
  using assms
  by (simp add: handleGenerateKeywords_def generateKeywordsAndMetrics_def Let_def
      rethrown_hides_signature rethrown_not_empty)

text \<open>
  Claim C1, on the code. When the request to the service fails, \<open>hasApiKey\<close> is left
  as it was, whatever the failure, and the error shown is the message of the \<open>Error\<close>
  that the generation client throws. For a failure whose message contains
  \<open>Requested entity was not found.\<close> that is the client's
  \<open>API Key issue or model not found. ...\<close>, which does not contain the signature the
  handler looks for: the handler takes its general branch and never the one that sets
  \<open>hasApiKey\<close> to false, as the claim wants. For every other failure it is the
  client's \<open>Failed to fetch keyword data. ...\<close>, as the claim says.
\<close>

theorem entity_not_found_keeps_credential:
  assumes "generateContent P seed count = Inl e" and "hasApiKey st"
  shows "fst (handleGenerateKeywords P st w seed count) =
           st\<lparr>isLoading := False, error := Some (rethrown e), keywords' := []\<rparr>
    \<and> hasApiKey (fst (handleGenerateKeywords P st w seed count))
    \<and> (\<forall>m. e = ErrorObject m \<and> includes_str m entity_not_found \<longrightarrow>
          error (fst (handleGenerateKeywords P st w seed count)) = Some api_key_issue)
    \<and> ((\<forall>m. e = ErrorObject m \<longrightarrow> \<not> includes_str m entity_not_found) \<longrightarrow>
          error (fst (handleGenerateKeywords P st w seed count)) = Some failed_to_fetch)"
proof -
  have "request_keywords P w' seed count = Inl e" for w'
    using assms(1) by (simp add: request_keywords_def)
  from generate_failure [OF this assms(2)] assms(2) show ?thesis
    by (cases e) simp_all
qed

theorem entity_not_found_keeps_credential_witness:
  "hasApiKey (fst (handleGenerateKeywords
       (example_platform\<lparr>generateContent := \<lambda>seed count. Inl (ErrorObject entity_not_found)\<rparr>)
       (initial_state\<lparr>hasApiKey := True\<rparr>) example_world ''solar panels'' (Num 5)))
   \<and> error (fst (handleGenerateKeywords
       (example_platform\<lparr>generateContent := \<lambda>seed count. Inl (ErrorObject entity_not_found)\<rparr>)
       (initial_state\<lparr>hasApiKey := True\<rparr>) example_world ''solar panels'' (Num 5)))
     = Some api_key_issue"
proof -
  have "includes_str entity_not_found entity_not_found"
    by (simp add: includes_str_def)
  then show ?thesis
    using entity_not_found_keeps_credential
      [of "example_platform\<lparr>generateContent := \<lambda>seed count. Inl (ErrorObject entity_not_found)\<rparr>"
        "''solar panels''" "Num 5" "ErrorObject entity_not_found"
        "initial_state\<lparr>hasApiKey := True\<rparr>" example_world]
    by simp
qed

section \<open>The generated records\<close>

lemma length_assign_ids: "length (assign_ids P n kws) = length kws"
  by (induction kws arbitrary: n) simp_all

lemma record_id_update:
  "record_id (JObj (AList.update ''id'' (JStr u) ps)) = Some u"
  by (simp add: update_conv')

lemma ids_assign_ids:
  "map record_id (assign_ids P n kws) = map (\<lambda>i. Some (randomUUID P i)) [n..<n + length kws]"
proof (induction kws arbitrary: n)
  case Nil
  then show ?case by simp
next
  case (Cons kw kws)
  have "[n..<n + length (kw # kws)] = n # [Suc n..<Suc n + length kws]"
    using upt_conv_Cons [of n "n + length (kw # kws)"] by simp
  with Cons show ?case by (simp add: update_conv')
qed

lemma field_is_update:
  "k \<noteq> k' \<Longrightarrow> field_is (AList.update k' v ps) k shape = field_is ps k shape"
  by (simp add: field_is_def update_conv')

lemma seven_fields_update:
  "has_seven_fields (AList.update ''id'' v ps) = has_seven_fields ps"
  by (simp add: has_seven_fields_def field_is_update)

lemma typed_assign_ids:
  "map is_KeywordData (assign_ids P n kws) = map (\<lambda>kw. has_seven_fields (own_properties kw)) kws"
  by (induction kws arbitrary: n) (simp_all add: seven_fields_update field_is_def update_conv')

lemma fields_assign_ids:
  "i < length kws \<Longrightarrow> k \<noteq> ''id'' \<Longrightarrow>
   js_get (assign_ids P n kws ! i) k =
     Inr (case map_of (own_properties (kws ! i)) k of Some v \<Rightarrow> v | None \<Rightarrow> JUndefined)"
proof (induction kws arbitrary: n i)
  case Nil
  then show ?case by simp
next
  case (Cons kw kws)
  then show ?case by (cases i) (simp_all add: update_conv')
qed

lemma generate_success:
  assumes "fst (generateKeywordsAndMetrics P w seed count) = Inr generated"
  shows "\<exists>reply parsed. generateContent P seed count = Inr (Some reply)
      \<and> JSON_parse P (trim P reply) = Inr (JArr parsed)
      \<and> generated = assign_ids P (uuids_drawn w) parsed"
  using assms
  by (auto simp: generateKeywordsAndMetrics_def request_keywords_def Let_def
      split: sum.splits option.splits js_value.splits)

text \<open>
  Claim C2, as the code has it. A successful call of \<open>generateKeywordsAndMetrics\<close>
  returns one record for each element of the array in the service's reply, as many as
  there are (the count asked for is not enforced). Each record is the element with its
  properties as the service sent them, validated neither for presence nor for the
  enumerated values, so it is a \<open>KeywordData\<close> exactly when the element has the seven
  fields in their declared shapes; its \<open>id\<close> is the next result of
  \<open>crypto.randomUUID\<close>, and the ids of a batch are pairwise distinct whenever the UUIDs
  drawn for it are.
\<close>

theorem generated_records:
  assumes "fst (generateKeywordsAndMetrics P w seed count) = Inr generated"
  shows "\<exists>reply parsed. generateContent P seed count = Inr (Some reply)
      \<and> JSON_parse P (trim P reply) = Inr (JArr parsed)
      \<and> length generated = length parsed
      \<and> map record_id generated =
          map (\<lambda>i. Some (randomUUID P i)) [uuids_drawn w..<uuids_drawn w + length parsed]
      \<and> map is_KeywordData generated = map (\<lambda>kw. has_seven_fields (own_properties kw)) parsed
      \<and> (\<forall>i k. i < length parsed \<and> k \<noteq> ''id'' \<longrightarrow>
            js_get (generated ! i) k =
              Inr (case map_of (own_properties (parsed ! i)) k of
                     Some v \<Rightarrow> v | None \<Rightarrow> JUndefined))
      \<and> (distinct (map (randomUUID P) [uuids_drawn w..<uuids_drawn w + length parsed])
            \<longrightarrow> distinct (map record_id generated))"
proof -
  from generate_success [OF assms] obtain reply parsed where
    1: "generateContent P seed count = Inr (Some reply)"
    and 2: "JSON_parse P (trim P reply) = Inr (JArr parsed)"
    and 3: "generated = assign_ids P (uuids_drawn w) parsed"
    by blast
  have "distinct (map record_id generated)"
    if "distinct (map (randomUUID P) [uuids_drawn w..<uuids_drawn w + length parsed])"
  proof -
    have "map record_id generated =
        map Some (map (randomUUID P) [uuids_drawn w..<uuids_drawn w + length parsed])"
      by (simp add: 3 ids_assign_ids)
    with that show ?thesis by (simp add: distinct_map del: map_map)
  qed
  with 1 2 3 show ?thesis
    by (intro exI [of _ reply] exI [of _ parsed])
       (simp add: length_assign_ids ids_assign_ids typed_assign_ids fields_assign_ids)
qed

lemma example_generation:
  "fst (generateKeywordsAndMetrics example_platform example_world ''solar panels'' (Num 1))
     = Inr example_generated"
  by (simp add: generateKeywordsAndMetrics_def request_keywords_def example_platform_def
      example_world_def example_trim_def example_reply_def example_parse_def example_json_def
      example_fields_def example_generated_def index_key.simps Let_def)

theorem generated_records_witness:
  "fst (generateKeywordsAndMetrics example_platform example_world ''solar panels'' (Num 1))
     = Inr example_generated
   \<and> map record_id example_generated = [Some ''uuid-0'', Some ''uuid-1'']
   \<and> distinct (map record_id example_generated)
   \<and> map is_KeywordData example_generated = [True, False]"
proof -
  from generated_records [OF example_generation] obtain parsed :: "js_value list" where
    len: "length example_generated = length parsed"
    and ids: "map record_id example_generated =
      map (\<lambda>i. Some (randomUUID example_platform i))
        [uuids_drawn example_world..<uuids_drawn example_world + length parsed]"
    by (elim exE conjE) blast
  have "length parsed = 2"
    using len by (simp add: example_generated_def)
  with ids have "map record_id example_generated = [Some ''uuid-0'', Some ''uuid-1'']"
    by (simp add: example_world_def example_platform_def index_key.simps upt_rec)
  moreover have "map is_KeywordData example_generated = [True, False]"
    by (simp add: example_generated_def example_fields_def field_is_def has_seven_fields_def
        is_level_def is_volume_def all_levels_def all_volumes_def)
  ultimately show ?thesis
    using example_generation by simp
qed

text \<open>The claim as stated fails: asked for one keyword, the client returns the two
  objects the service sent, the second without six of the seven fields and with a
  difficulty outside the declared values.\<close>

theorem generated_records_exceed_count:
  "fst (generateKeywordsAndMetrics example_platform example_world ''solar panels'' (Num 1))
     = Inr example_generated
   \<and> ''solar panels'' \<noteq> [] \<and> in_range (Num 1)
   \<and> \<not> length example_generated \<le> 1
   \<and> \<not> list_all is_KeywordData example_generated"
  using example_generation
  by (simp add: example_generated_def field_is_def has_seven_fields_def)

section \<open>JSON text read back\<close>



























section \<open>Saving, then loading\<close>





end
